theory Spec2Isabelle
  imports Main "HOL-Library.Product_Lexorder" "HOL-Library.Multiset"
begin

section \<open>Rank resolver (bot/utils.py)\<close>

text \<open>
  Rank titles are plain ASCII strings.  A Discord member is seen by the resolver only through
  the list of its role ids (\<open>member.roles\<close>, in the order Discord delivers them); the
  argument \<open>member=None\<close> is \<open>None\<close>, and a member object is always truthy.
\<close>

definition special_roles :: "(int \<times> string) list" where
  "special_roles =
     [(1266143259801948261, ''Demon God''),
      (1281115906717650985, ''Heavenly Demon''),
      (1276607675735736452, ''Guardian''),
      (1304283446016868424, ''Supreme Demon''),
      (1266242655642456074, ''Demon Council''),
      (1390279781827874937, ''Young Master'')]"

definition core_roles :: "int list" where
  "core_roles = [1391059979167072286, 1391060071189971075, 1382602945752727613]"

definition inner_roles :: "int list" where
  "inner_roles = [1268528848740290580, 1308823860740624384, 1391059841505689680]"

definition outer_roles :: "int list" where
  "outer_roles = [1389474689818296370, 1266826177163694181, 1308823565881184348]"

text \<open>
  The loop \<open>for role in member.roles: if role.id in special_roles: return special_roles[role.id]\<close>:
  the first held role that is a key of the dictionary decides.
\<close>

fun first_special :: "int list \<Rightarrow> string option" where
  "first_special [] = None"
| "first_special (r # rs) =
     (case map_of special_roles r of
        Some title \<Rightarrow> Some title
      | None \<Rightarrow> first_special rs)"

text \<open>\<open>any(role.id in rank_roles[tier] for role in member.roles)\<close>\<close>

definition has_role_in :: "int list \<Rightarrow> int list \<Rightarrow> bool" where
  "has_role_in tier roles = list_ex (\<lambda>r. List.member tier r) roles"

text \<open>The point-only chain that ends both branches of the function.\<close>

definition points_only_rank :: "int \<Rightarrow> string" where
  "points_only_rank pts =
     (if pts \<ge> 750 then ''Inner Disciple''
      else if pts \<ge> 350 then ''Inner Disciple''
      else if pts \<ge> 10 then ''Outer Disciple''
      else ''Servant'')"

definition get_rank_title_by_points :: "int \<Rightarrow> int list option \<Rightarrow> string" where
  "get_rank_title_by_points pts member =
     (case member of
        Some roles \<Rightarrow>
          (case first_special roles of
             Some title \<Rightarrow> title
           | None \<Rightarrow>
               if pts \<ge> 750 \<and> has_role_in core_roles roles then ''Core Disciple''
               else if pts \<ge> 350 \<and> has_role_in inner_roles roles then ''Inner Disciple''
               else if pts \<ge> 10 \<and> has_role_in outer_roles roles then ''Outer Disciple''
               else if pts < 10 then ''Servant''
               else points_only_rank pts)
      | None \<Rightarrow> points_only_rank pts)"

section \<open>Ledger store (bot/leaderboard.py)\<close>

subsection \<open>Data model\<close>

text \<open>
  A Python \<open>str\<close> is a sequence of code points, and \<open>len\<close> and slicing count code points,
  so text is a list of code points.  Instants (\<open>datetime\<close>, \<open>TIMESTAMP\<close>) are integers on one
  time line.  A row of the table \<open>leaderboard\<close> has the six columns of \<open>create_tables\<close>; every
  statement of the manager that writes a row gives all of them a value, so no column is null.
\<close>

type_synonym ustring = "nat list"
type_synonym timestamp = int

definition ustr :: "string \<Rightarrow> ustring" where
  "ustr s = map of_char s"

record entry =
  guild_id :: int
  user_id :: int
  username :: ustring
  points :: int
  last_updated :: timestamp
  created_at :: timestamp

text \<open>
  The manager object: whether \<open>self.pool\<close> is set, and the content of the table behind it, in
  the order the store scans it (new rows go to the end).
\<close>

record manager =
  pool :: bool
  leaderboard :: "entry list"

text \<open>
  The storage calls the manager makes.  The store is outside the program: whether a call
  raises (the connection is lost, the store rejects a value that does not fit its column, ...)
  is decided by the environment of the call, together with the two clocks the manager
  reads, \<open>datetime.now()\<close> of the process (read once per statement that passes it, in order)
  and \<open>CURRENT_TIMESTAMP\<close> of the store.  A call that raises has no effect on the table.
\<close>

datatype stmt =
  Acquire | Begin | Commit | InsertOnConflict | SelectPoints | UpdatePoints | SelectRow
  | DeleteRow | CountRows | SelectPage | SelectStats

datatype exn = StorageError stmt | ZeroDivisionError

record env =
  faults :: "stmt \<Rightarrow> bool"
  datetime_now :: "nat \<Rightarrow> timestamp"
  current_timestamp :: timestamp

datatype pyval = PyNone | PyBool bool

fun truthy :: "pyval \<Rightarrow> bool" where
  "truthy PyNone = False"
| "truthy (PyBool b) = b"

subsection \<open>Exceptions\<close>

definition on_ok :: "exn + 'a \<Rightarrow> ('a \<Rightarrow> exn + 'b) \<Rightarrow> exn + 'b" where
  "on_ok r f = (case r of Inl e \<Rightarrow> Inl e | Inr v \<Rightarrow> f v)"

text \<open>\<open>try: body  except Exception as e: handler\<close>\<close>

definition try_except :: "exn + 'a \<Rightarrow> (exn \<Rightarrow> exn + 'a) \<Rightarrow> exn + 'a" where
  "try_except body handler = (case body of Inl e \<Rightarrow> handler e | Inr v \<Rightarrow> Inr v)"

text \<open>A storage call either raises or delivers the result of its statement.\<close>

definition exec :: "env \<Rightarrow> stmt \<Rightarrow> 'a \<Rightarrow> exn + 'a" where
  "exec ev s result = (if faults ev s then Inl (StorageError s) else Inr result)"

text \<open>
  \<open>async with conn.transaction()\<close>: the body's writes are kept when the block is left normally
  (a \<open>return\<close> inside it included) and the commit succeeds; an exception leaves the table as
  it was, which the caller of \<open>transaction\<close> models by keeping its own copy.
\<close>

definition transaction ::
  "env \<Rightarrow> entry list \<Rightarrow> (entry list \<Rightarrow> exn + 'a \<times> entry list) \<Rightarrow> exn + 'a \<times> entry list" where
  "transaction ev tbl body =
     on_ok (exec ev Begin ()) (\<lambda>_.
     on_ok (body tbl) (\<lambda>res.
     on_ok (exec ev Commit ()) (\<lambda>_. Inr res)))"

subsection \<open>The statements\<close>

definition key_match :: "int \<Rightarrow> int \<Rightarrow> entry \<Rightarrow> bool" where
  "key_match g u e = (guild_id e = g \<and> user_id e = u)"

text \<open>\<open>SELECT ... WHERE guild_id = $1 AND user_id = $2\<close>, first row or nothing.\<close>

definition select_row :: "int \<Rightarrow> int \<Rightarrow> entry list \<Rightarrow> entry option" where
  "select_row g u tbl = find (key_match g u) tbl"

text \<open>
  The trigger \<open>update_leaderboard_timestamp\<close> of \<open>create_tables\<close> runs the function
  \<open>update_last_updated\<close> before every update of a row: \<open>NEW.last_updated = CURRENT_TIMESTAMP\<close>.
\<close>

definition update_last_updated :: "env \<Rightarrow> entry \<Rightarrow> entry" where
  "update_last_updated ev new = new\<lparr>last_updated := current_timestamp ev\<rparr>"

text \<open>
  \<open>INSERT INTO leaderboard ... VALUES ($1, $2, $3, 0, $4, $4) ON CONFLICT (guild_id, user_id)
  DO UPDATE SET ...\<close>: \<open>do_update old excluded\<close> is the SET clause.
\<close>

definition insert_on_conflict ::
  "env \<Rightarrow> (entry \<Rightarrow> entry \<Rightarrow> entry) \<Rightarrow> entry \<Rightarrow> entry list \<Rightarrow> entry list" where
  "insert_on_conflict ev do_update excluded tbl =
     (if list_ex (key_match (guild_id excluded) (user_id excluded)) tbl
      then map (\<lambda>e. if key_match (guild_id excluded) (user_id excluded) e
                     then update_last_updated ev (do_update e excluded) else e) tbl
      else tbl @ [excluded])"

definition new_entry :: "int \<Rightarrow> int \<Rightarrow> ustring \<Rightarrow> timestamp \<Rightarrow> entry" where
  "new_entry g u name t =
     \<lparr>guild_id = g, user_id = u, username = take 255 name, points = 0,
      last_updated = t, created_at = t\<rparr>"


text \<open>\<open>DELETE FROM leaderboard WHERE guild_id = $1 AND user_id = $2\<close>, with its row count.\<close>

definition sql_delete :: "int \<Rightarrow> int \<Rightarrow> entry list \<Rightarrow> nat \<times> entry list" where
  "sql_delete g u tbl =
     (length (filter (key_match g u) tbl), filter (\<lambda>e. \<not> key_match g u e) tbl)"

text \<open>
  \<open>ORDER BY points DESC, last_updated ASC\<close>.  Rows that agree on both columns stay in the
  order of the scan.  \<open>ROW_NUMBER() OVER (ORDER BY ...)\<close> numbers the rows of its input,
  that is the rows the WHERE clause has kept, from 1 in that order.
\<close>

definition order_key :: "entry \<Rightarrow> int \<times> timestamp" where
  "order_key e = (- points e, last_updated e)"

definition order_by :: "entry list \<Rightarrow> entry list" where
  "order_by rows = sort_key order_key rows"

definition row_number_over :: "entry list \<Rightarrow> (int \<times> entry) list" where
  "row_number_over rows = zip (map int [1 ..< Suc (length rows)]) (order_by rows)"

text \<open>\<open>LIMIT $2 OFFSET $3\<close>; the store rejects a negative limit or offset.\<close>

definition limit_offset :: "int \<Rightarrow> int \<Rightarrow> 'a list \<Rightarrow> exn + 'a list" where
  "limit_offset lim off rows =
     (if lim < 0 \<or> off < 0 then Inl (StorageError SelectPage)
      else Inr (take (nat lim) (drop (nat off) rows)))"

text \<open>Python's \<open>a // b\<close> on integers: floor division, \<open>ZeroDivisionError\<close> on 0.\<close>

definition floordiv :: "int \<Rightarrow> int \<Rightarrow> exn + int" where
  "floordiv a b = (if b = 0 then Inl ZeroDivisionError else Inr (a div b))"

subsection \<open>add_member and remove_member\<close>

text \<open>
  Both methods have no \<open>return\<close> with a value: they return \<open>None\<close> on every path.  What
  \<open>remove_member\<close> found is told to the log only.
\<close>

definition add_member ::
  "env \<Rightarrow> manager \<Rightarrow> int \<Rightarrow> int \<Rightarrow> ustring \<Rightarrow> exn + pyval \<times> manager" where
  "add_member ev m g u name =
     (if \<not> pool m then Inr (PyNone, m)
      else try_except
        (on_ok (exec ev Acquire ()) (\<lambda>_.
         on_ok (exec ev InsertOnConflict
                  (insert_on_conflict ev
                     (\<lambda>old excluded. old\<lparr>username := username excluded,
                                           last_updated := last_updated excluded\<rparr>)
                     (new_entry g u name (datetime_now ev 0)) (leaderboard m))) (\<lambda>tbl.
         Inr (PyNone, m\<lparr>leaderboard := tbl\<rparr>))))
        (\<lambda>e. Inr (PyNone, m)))"

datatype log_record =
  NotInitialized | RemovedMember | MemberNotFound | ErrorRemoving exn

definition remove_member ::
  "env \<Rightarrow> manager \<Rightarrow> int \<Rightarrow> int \<Rightarrow> exn + pyval \<times> log_record \<times> manager" where
  "remove_member ev m g u =
     (if \<not> pool m then Inr (PyNone, NotInitialized, m)
      else try_except
        (on_ok (exec ev Acquire ()) (\<lambda>_.
         on_ok (exec ev DeleteRow (sql_delete g u (leaderboard m))) (\<lambda>(n, tbl).
         Inr (PyNone, (if n = 1 then RemovedMember else MemberNotFound),
              m\<lparr>leaderboard := tbl\<rparr>))))
        (\<lambda>e. Inr (PyNone, ErrorRemoving e, m)))"

subsection \<open>update_points\<close>





subsection \<open>Queries\<close>

text \<open>
  A row of a page as the manager returns it.  \<open>str(row['user_id'])\<close> is kept as the number it
  prints, and \<open>isoformat()\<close> as the instant it prints.
\<close>

record lb_row =
  rank :: int
  row_user_id :: int
  row_username :: ustring
  row_points :: int
  row_last_updated :: timestamp

definition format_row :: "int \<times> entry \<Rightarrow> lb_row" where
  "format_row r =
     \<lparr>rank = fst r, row_user_id = user_id (snd r), row_username = username (snd r),
      row_points = points (snd r), row_last_updated = last_updated (snd r)\<rparr>"

definition in_guild :: "int \<Rightarrow> entry \<Rightarrow> bool" where
  "in_guild g e = (guild_id e = g \<and> points e \<ge> 0)"

text \<open>
  The entries of a guild, and the two constraints of the table: its primary key
  \<open>(guild_id, user_id)\<close> and \<open>CHECK (points >= 0)\<close>.
\<close>

definition guild_entries :: "int \<Rightarrow> entry list \<Rightarrow> entry list" where
  "guild_entries g tbl = filter (\<lambda>e. guild_id e = g) tbl"

definition primary_key :: "entry list \<Rightarrow> bool" where
  "primary_key tbl = distinct (map (\<lambda>e. (guild_id e, user_id e)) tbl)"

definition points_check :: "entry list \<Rightarrow> bool" where
  "points_check tbl = list_all (\<lambda>e. points e \<ge> 0) tbl"

text \<open>
  The method \<open>_get_leaderboard_async\<close> (without its leading underscore, which a constant
  name cannot have).  Its WHERE clause is \<open>guild_id = $1 AND points >= 0\<close>.  A page size of
  0 raises \<open>ZeroDivisionError\<close> in the page count, which the \<open>except\<close> clause catches like a
  storage error.
\<close>

definition get_leaderboard_async ::
  "env \<Rightarrow> manager \<Rightarrow> int \<Rightarrow> int \<Rightarrow> int \<Rightarrow> exn + lb_row list \<times> int \<times> int" where
  "get_leaderboard_async ev m g page per_page =
     (if \<not> pool m then Inr ([], 0, 0)
      else try_except
        (on_ok (exec ev Acquire ()) (\<lambda>_.
         on_ok (exec ev CountRows (int (length (filter (in_guild g) (leaderboard m)))))
           (\<lambda>total_members.
              if total_members = 0 then Inr ([], 0, 0)
              else on_ok (floordiv (total_members + per_page - 1) per_page) (\<lambda>q.
                let total_pages = max 1 q;
                    page' = max 1 (min page total_pages);
                    offset = (page' - 1) * per_page
                in on_ok (on_ok (limit_offset per_page offset
                                   (row_number_over (filter (in_guild g) (leaderboard m))))
                            (exec ev SelectPage)) (\<lambda>rows.
                     Inr (map format_row rows, page', total_pages))))))
        (\<lambda>e. Inr ([], 0, 0)))"

record user_stats =
  stats_username :: ustring
  stats_points :: int
  stats_rank :: int
  stats_last_updated :: timestamp
  stats_created_at :: timestamp

definition fetchrow :: "'a list \<Rightarrow> 'a option" where
  "fetchrow rows = (case rows of [] \<Rightarrow> None | r # _ \<Rightarrow> Some r)"

definition get_user_stats :: "env \<Rightarrow> manager \<Rightarrow> int \<Rightarrow> int \<Rightarrow> exn + user_stats option" where
  "get_user_stats ev m g u =
     (if \<not> pool m then Inr None
      else try_except
        (on_ok (exec ev Acquire ()) (\<lambda>_.
         on_ok (exec ev SelectStats
                  (fetchrow (row_number_over (filter (key_match g u) (leaderboard m)))))
           (\<lambda>row. case row of
                     None \<Rightarrow> Inr None
                   | Some r \<Rightarrow>
                       Inr (Some \<lparr>stats_username = username (snd r),
                                  stats_points = points (snd r), stats_rank = fst r,
                                  stats_last_updated = last_updated (snd r),
                                  stats_created_at = created_at (snd r)\<rparr>))))
        (\<lambda>e. Inr None))"

section \<open>Input validation and the addpoints command\<close>

text \<open>
  Python's \<open>int(s)\<close> on a string, base 10: surrounding whitespace is dropped, one sign is
  allowed, and the rest must be digits, with single underscores allowed between digits;
  anything else is a \<open>ValueError\<close>, here \<open>None\<close>.  The text is a sequence of code points
  below 256, where the decimal digits are the ASCII ones.  (The interpreter's limit on the
  number of digits is not modelled.)
\<close>

definition py_isspace :: "nat \<Rightarrow> bool" where
  "py_isspace c =
     List.member [9, 10, 11, 12, 13, 28, 29, 30, 31, 32, 133, 160, 5760, 8192, 8193, 8194,
                  8195, 8196, 8197, 8198, 8199, 8200, 8201, 8202, 8232, 8233, 8239, 8287,
                  12288] c"










section \<open>Leaderboard renderer (bot/utils.py)\<close>











text \<open>\<open>if rankings_text.strip()\<close>: the text has a character that is not whitespace.\<close>

definition not_blank :: "ustring \<Rightarrow> bool" where
  "not_blank text = list_ex (\<lambda>c. \<not> py_isspace c) text"








section \<open>A small ledger for examples\<close>

text \<open>
  A store that answers every call, and a ledger with four members in guild 1 (two of them tied
  on points) and one in guild 2; guild 3 has no entry.
\<close>

definition healthy_env :: env where
  "healthy_env = \<lparr>faults = (\<lambda>_. False), datetime_now = (\<lambda>k. 1000 + int k),
                  current_timestamp = 2000\<rparr>"

definition example_ledger :: "entry list" where
  "example_ledger =
     [\<lparr>guild_id = 1, user_id = 20, username = ustr ''bob'', points = 5,
       last_updated = 60, created_at = 2\<rparr>,
      \<lparr>guild_id = 1, user_id = 10, username = ustr ''alice'', points = 100,
       last_updated = 50, created_at = 1\<rparr>,
      \<lparr>guild_id = 2, user_id = 10, username = ustr ''alice'', points = 7,
       last_updated = 70, created_at = 3\<rparr>,
      \<lparr>guild_id = 1, user_id = 30, username = ustr ''carol'', points = 50,
       last_updated = 40, created_at = 4\<rparr>,
      \<lparr>guild_id = 1, user_id = 40, username = ustr ''dave'', points = 5,
       last_updated = 30, created_at = 5\<rparr>]"

definition example_manager :: manager where
  "example_manager = \<lparr>pool = True, leaderboard = example_ledger\<rparr>"

section \<open>Properties of the rank resolver\<close>

lemma first_special_None_iff:
  "first_special roles = None \<longleftrightarrow> (\<forall>r \<in> set roles. map_of special_roles r = None)"
  by (induction roles) (auto split: option.splits)


lemma first_special_first:
  "first_special (pre @ r # post) = Some title"
  if "\<forall>q \<in> set pre. map_of special_roles q = None" "map_of special_roles r = Some title"
  using that by (induction pre) (auto split: option.splits)

text \<open>
  Claim C3.  The priority rules of the rank resolver, for every points value and every list of
  held roles: (1) when a special role is held, the result is the mapped title of the first
  special role in the member's role list, whatever the points; when none is held, (2) 750 or
  more points with a Core-tier role give "Core Disciple"; (3) when no tier whose threshold
  is met has one of its roles held, 350 or more points (750 or more included) give
  "Inner Disciple" and 10 to 349 points give "Outer Disciple"; (4) fewer than 10 points give
  "Servant".
\<close>

theorem rank_priority_rules:
  "((\<forall>q \<in> set pre. map_of special_roles q = None) \<and> map_of special_roles r = Some title
      \<longrightarrow> get_rank_title_by_points pts (Some (pre @ r # post)) = title)
   \<and> (first_special roles = None \<and> pts \<ge> 750 \<and> has_role_in core_roles roles
      \<longrightarrow> get_rank_title_by_points pts (Some roles) = ''Core Disciple'')
   \<and> (first_special roles = None
        \<and> \<not> (pts \<ge> 750 \<and> has_role_in core_roles roles)
        \<and> \<not> (pts \<ge> 350 \<and> has_role_in inner_roles roles)
        \<and> \<not> (pts \<ge> 10 \<and> has_role_in outer_roles roles)
      \<longrightarrow> get_rank_title_by_points pts (Some roles) =
            (if pts \<ge> 350 then ''Inner Disciple''
             else if pts \<ge> 10 then ''Outer Disciple'' else ''Servant''))
   \<and> (first_special roles = None \<and> pts < 10
      \<longrightarrow> get_rank_title_by_points pts (Some roles) = ''Servant'')"
proof (intro conjI impI)
  assume "(\<forall>q \<in> set pre. map_of special_roles q = None) \<and> map_of special_roles r = Some title"
  then show "get_rank_title_by_points pts (Some (pre @ r # post)) = title"
    by (simp add: get_rank_title_by_points_def first_special_first)
next
  assume "first_special roles = None \<and> pts \<ge> 750 \<and> has_role_in core_roles roles"
  then show "get_rank_title_by_points pts (Some roles) = ''Core Disciple''"
    by (simp add: get_rank_title_by_points_def)
next
  assume "first_special roles = None
        \<and> \<not> (pts \<ge> 750 \<and> has_role_in core_roles roles)
        \<and> \<not> (pts \<ge> 350 \<and> has_role_in inner_roles roles)
        \<and> \<not> (pts \<ge> 10 \<and> has_role_in outer_roles roles)"
  then show "get_rank_title_by_points pts (Some roles) =
            (if pts \<ge> 350 then ''Inner Disciple''
             else if pts \<ge> 10 then ''Outer Disciple'' else ''Servant'')"
    by (auto simp: get_rank_title_by_points_def points_only_rank_def)
next
  assume "first_special roles = None \<and> pts < 10"
  then show "get_rank_title_by_points pts (Some roles) = ''Servant''"
    by (simp add: get_rank_title_by_points_def)
qed

text \<open>
  The rules at concrete members: a Guardian with 5 points (the Guardian role comes before the
  Demon God role in the role list), 760 points with a Core-tier role, 760 points with no tier
  role, 200 points with no tier role, and 9 points.
\<close>

theorem rank_priority_rules_witness:
  "get_rank_title_by_points 5 (Some [42, 1276607675735736452, 1266143259801948261]) = ''Guardian''
   \<and> get_rank_title_by_points 760 (Some [42, 1391060071189971075]) = ''Core Disciple''
   \<and> get_rank_title_by_points 760 (Some [42]) = ''Inner Disciple''
   \<and> get_rank_title_by_points 200 (Some [42]) = ''Outer Disciple''
   \<and> get_rank_title_by_points 9 (Some [42, 1391060071189971075]) = ''Servant''"
proof -
  have sp: "first_special [42, 1391060071189971075] = None" "first_special [42] = None"
    by (simp_all add: special_roles_def)
  have core: "has_role_in core_roles [42, 1391060071189971075]"
    by (simp add: has_role_in_def core_roles_def)
  have none: "\<not> has_role_in core_roles [42]" "\<not> has_role_in inner_roles [42]"
    "\<not> has_role_in outer_roles [42]"
    by (simp_all add: has_role_in_def core_roles_def inner_roles_def outer_roles_def)
  have "get_rank_title_by_points 5 (Some ([42] @ 1276607675735736452 # [1266143259801948261]))
          = ''Guardian''"
    using rank_priority_rules [where pre = "[42]" and r = 1276607675735736452
        and title = "''Guardian''" and post = "[1266143259801948261]" and pts = 5]
    by (simp add: special_roles_def)
  moreover have "get_rank_title_by_points 760 (Some [42, 1391060071189971075]) = ''Core Disciple''"
    using rank_priority_rules [where roles = "[42, 1391060071189971075]" and pts = 760] sp core
    by simp
  moreover have "get_rank_title_by_points 760 (Some [42]) = ''Inner Disciple''"
    using rank_priority_rules [where roles = "[42]" and pts = 760] sp none by simp
  moreover have "get_rank_title_by_points 200 (Some [42]) = ''Outer Disciple''"
    using rank_priority_rules [where roles = "[42]" and pts = 200] sp none by simp
  moreover have "get_rank_title_by_points 9 (Some [42, 1391060071189971075]) = ''Servant''"
    using rank_priority_rules [where roles = "[42, 1391060071189971075]" and pts = 9] sp
    by simp
  ultimately show ?thesis by simp
qed

section \<open>Properties of the ledger store\<close>

lemma on_ok_simps [simp]: "on_ok (Inr v) f = f v" "on_ok (Inl e) f = Inl e"
  by (simp_all add: on_ok_def)

lemma try_except_simps [simp]:
  "try_except (Inr v) h = Inr v" "try_except (Inl e) h = h e"
  by (simp_all add: try_except_def)

lemma exec_ok: "\<not> faults ev s \<Longrightarrow> exec ev s v = Inr v"
  by (simp add: exec_def)

lemma exec_fault: "faults ev s \<Longrightarrow> exec ev s v = Inl (StorageError s)"
  by (simp add: exec_def)

lemma select_row_None_iff: "select_row g u tbl = None \<longleftrightarrow> \<not> list_ex (key_match g u) tbl"
  by (auto simp: select_row_def find_None_iff list_ex_iff)

lemma select_row_Some_key: "select_row g u tbl = Some e \<Longrightarrow> key_match g u e \<and> e \<in> set tbl"
  unfolding select_row_def by (auto simp: find_Some_iff)

lemma select_row_map:
  assumes "\<And>e. key_match g u (f e) = key_match g u e"
  shows "select_row g u (map f tbl) = map_option f (select_row g u tbl)"
  using assms by (induction tbl) (auto simp: select_row_def)

lemma select_row_append:
  "select_row g u (tbl @ [x]) =
     (case select_row g u tbl of Some e \<Rightarrow> Some e
      | None \<Rightarrow> if key_match g u x then Some x else None)"
  by (induction tbl) (auto simp: select_row_def)

lemma key_match_new_entry [simp]: "key_match g' u' (new_entry g u n t) \<longleftrightarrow> g = g' \<and> u = u'"
  by (auto simp: key_match_def new_entry_def)

lemma new_entry_key [simp]: "guild_id (new_entry g u n t) = g" "user_id (new_entry g u n t) = u"
  by (simp_all add: new_entry_def)

lemma key_match_trigger [simp]:
  "key_match g u (update_last_updated ev e) = key_match g u e"
  by (simp add: key_match_def update_last_updated_def)


text \<open>The upsert, seen through a lookup: for a set clause that keeps the key columns.\<close>

lemma select_row_insert_on_conflict:
  assumes keep: "\<And>old. key_match g' u' (upd old (new_entry g u n t)) = key_match g' u' old"
  shows "select_row g' u' (insert_on_conflict ev upd (new_entry g u n t) tbl) =
     (case select_row g' u' tbl of
        Some e \<Rightarrow> Some (if key_match g u e
                         then update_last_updated ev (upd e (new_entry g u n t)) else e)
      | None \<Rightarrow> if g' = g \<and> u' = u then Some (new_entry g u n t) else None)"
proof (cases "list_ex (key_match g u) tbl")
  case True
  have "select_row g' u' (map (\<lambda>e. if key_match g u e
            then update_last_updated ev (upd e (new_entry g u n t)) else e) tbl) =
        map_option (\<lambda>e. if key_match g u e
            then update_last_updated ev (upd e (new_entry g u n t)) else e) (select_row g' u' tbl)"
    by (rule select_row_map) (simp add: keep)
  moreover have "select_row g' u' tbl = None \<Longrightarrow> \<not> (g' = g \<and> u' = u)"
    using True by (auto simp: select_row_None_iff)
  ultimately show ?thesis
    using True by (auto simp: insert_on_conflict_def split: option.splits)
next
  case False
  then have "select_row g' u' tbl = Some e \<Longrightarrow> \<not> key_match g u e" for e
    by (auto dest!: select_row_Some_key simp: list_ex_iff)
  then show ?thesis
    using False by (auto simp: insert_on_conflict_def select_row_append split: option.splits)
qed


lemma select_row_sql_delete:
  "select_row g' u' (snd (sql_delete g u tbl)) =
     (if g' = g \<and> u' = u then None else select_row g' u' tbl)"
  by (induction tbl) (auto simp: sql_delete_def select_row_def key_match_def)






lemma transaction_cases:
  "transaction ev tbl body = Inr res \<longleftrightarrow>
     \<not> faults ev Begin \<and> body tbl = Inr res \<and> \<not> faults ev Commit"
  by (auto simp: transaction_def exec_def on_ok_def split: sum.splits)






lemma add_member_healthy:
  assumes "pool m" "\<not> faults ev Acquire" "\<not> faults ev InsertOnConflict"
  shows "add_member ev m g u name =
     Inr (PyNone, m\<lparr>leaderboard :=
        insert_on_conflict ev
          (\<lambda>old excluded. old\<lparr>username := username excluded,
                                last_updated := last_updated excluded\<rparr>)
          (new_entry g u name (datetime_now ev 0)) (leaderboard m)\<rparr>)"
  using assms by (simp add: add_member_def exec_ok)

lemma add_member_never_raises: "\<exists>m'. add_member ev m g u name = Inr (PyNone, m')"
  by (auto simp: add_member_def exec_def)

lemma select_row_add_member:
  "select_row g' u' (insert_on_conflict ev
          (\<lambda>old excluded. old\<lparr>username := username excluded,
                                last_updated := last_updated excluded\<rparr>)
          (new_entry g u name t) tbl) =
     (if (g', u') = (g, u)
      then (case select_row g u tbl of
              Some e \<Rightarrow> Some (e\<lparr>username := take 255 name,
                                 last_updated := current_timestamp ev\<rparr>)
            | None \<Rightarrow> Some (new_entry g u name t))
      else select_row g' u' tbl)"
proof -
  have k: "\<And>x. select_row g' u' tbl = Some x \<Longrightarrow> key_match g u x \<longleftrightarrow> (g', u') = (g, u)"
    by (auto dest!: select_row_Some_key simp: key_match_def)
  have "select_row g' u' (insert_on_conflict ev
          (\<lambda>old excluded. old\<lparr>username := username excluded,
                                last_updated := last_updated excluded\<rparr>)
          (new_entry g u name t) tbl) =
     (case select_row g' u' tbl of
        Some e \<Rightarrow> Some (if key_match g u e
                         then update_last_updated ev
                                (e\<lparr>username := username (new_entry g u name t),
                                   last_updated := last_updated (new_entry g u name t)\<rparr>)
                         else e)
      | None \<Rightarrow> if g' = g \<and> u' = u then Some (new_entry g u name t) else None)"
    by (rule select_row_insert_on_conflict) (simp add: key_match_def)
  then show ?thesis
    using k by (auto simp: update_last_updated_def new_entry_def split: option.splits)
qed

text \<open>
  Claim C7.  \<open>add_member\<close> is idempotent on points.  After a first call the entry exists,
  with 0 points if it was inserted and with its old points otherwise; a second call for the
  same key and name returns \<open>None\<close> without an error, leaves the points (and every column
  other than \<open>username\<close> and \<open>last_updated\<close>) of that entry as they are, and leaves every
  other entry untouched.
\<close>

theorem add_member_idempotent:
  assumes "pool m" and "\<forall>s. \<not> faults ev1 s" and "\<forall>s. \<not> faults ev2 s"
  shows "\<exists>m1 m2 e1.
      add_member ev1 m g u name = Inr (PyNone, m1)
    \<and> add_member ev2 m1 g u name = Inr (PyNone, m2)
    \<and> select_row g u (leaderboard m1) = Some e1
    \<and> points e1 = (case select_row g u (leaderboard m) of None \<Rightarrow> 0 | Some e \<Rightarrow> points e)
    \<and> select_row g u (leaderboard m2) =
         Some (e1\<lparr>username := take 255 name, last_updated := current_timestamp ev2\<rparr>)
    \<and> map_option points (select_row g u (leaderboard m2)) = Some (points e1)
    \<and> (\<forall>g' u'. (g', u') \<noteq> (g, u) \<longrightarrow>
          select_row g' u' (leaderboard m2) = select_row g' u' (leaderboard m1))"
proof -
  let ?set = "\<lambda>old excluded :: entry. old\<lparr>username := username excluded,
                                last_updated := last_updated excluded\<rparr>"
  let ?t1 = "insert_on_conflict ev1 ?set (new_entry g u name (datetime_now ev1 0)) (leaderboard m)"
  let ?m1 = "m\<lparr>leaderboard := ?t1\<rparr>"
  let ?t2 = "insert_on_conflict ev2 ?set (new_entry g u name (datetime_now ev2 0)) ?t1"
  let ?m2 = "?m1\<lparr>leaderboard := ?t2\<rparr>"
  have a1: "add_member ev1 m g u name = Inr (PyNone, ?m1)"
    using assms by (simp add: add_member_healthy)
  have a2: "add_member ev2 ?m1 g u name = Inr (PyNone, ?m2)"
    using assms by (simp add: add_member_healthy)
  obtain e1 where e1: "select_row g u ?t1 = Some e1"
    by (cases "select_row g u (leaderboard m)") (simp_all add: select_row_add_member)
  have p1: "points e1 = (case select_row g u (leaderboard m) of None \<Rightarrow> 0 | Some e \<Rightarrow> points e)"
  proof (cases "select_row g u (leaderboard m)")
    case None
    then have "e1 = new_entry g u name (datetime_now ev1 0)"
      using e1 by (simp add: select_row_add_member)
    then show ?thesis using None by (simp add: new_entry_def)
  next
    case (Some e)
    then have "e1 = e\<lparr>username := take 255 name, last_updated := current_timestamp ev1\<rparr>"
      using e1 by (simp add: select_row_add_member)
    then show ?thesis using Some by simp
  qed
  have s2: "select_row g' u' ?t2 =
     (if (g', u') = (g, u)
      then Some (e1\<lparr>username := take 255 name, last_updated := current_timestamp ev2\<rparr>)
      else select_row g' u' ?t1)" for g' u'
    unfolding select_row_add_member [of g' u' ev2] e1 by simp
  show ?thesis
    using a1 a2 e1 p1 s2
    by (rule_tac exI [of _ ?m1], rule_tac exI [of _ ?m2], rule_tac exI [of _ e1]) simp
qed

lemma count_primary_key:
  "primary_key tbl \<Longrightarrow>
     length (filter (key_match g u) tbl) = (if select_row g u tbl = None then 0 else 1)"
proof (induction tbl)
  case Nil
  then show ?case by (simp add: select_row_def)
next
  case (Cons e tbl)
  show ?case
  proof (cases "key_match g u e")
    case True
    then have "(g, u) \<notin> (\<lambda>e. (guild_id e, user_id e)) ` set tbl"
      using Cons.prems by (auto simp: primary_key_def key_match_def)
    then have "filter (key_match g u) tbl = []"
      by (auto simp: filter_empty_conv key_match_def image_iff)
    then show ?thesis using True by (simp add: select_row_def)
  next
    case False
    then show ?thesis
      using Cons by (simp add: select_row_def primary_key_def)
  qed
qed

text \<open>
  Claim C8, as amended.  \<open>remove_member\<close> returns \<open>None\<close> on every path.  On a healthy
  store it deletes the entry of the key and leaves the others; whether a row was removed is
  told to the log only (\<open>RemovedMember\<close> when the entry existed, \<open>MemberNotFound\<close> when
  it did not).
\<close>

theorem remove_member_deletes:
  "(\<exists>lg m'. remove_member ev m g u = Inr (PyNone, lg, m'))
   \<and> (pool m \<and> (\<forall>s. \<not> faults ev s) \<and> primary_key (leaderboard m) \<longrightarrow>
        (\<exists>m'. remove_member ev m g u =
                 Inr (PyNone,
                      (if select_row g u (leaderboard m) = None then MemberNotFound
                       else RemovedMember), m')
             \<and> select_row g u (leaderboard m') = None
             \<and> (\<forall>g' u'. (g', u') \<noteq> (g, u) \<longrightarrow>
                   select_row g' u' (leaderboard m') = select_row g' u' (leaderboard m))))"
proof (intro conjI impI)
  show "\<exists>lg m'. remove_member ev m g u = Inr (PyNone, lg, m')"
    by (auto simp: remove_member_def exec_def case_prod_beta)
next
  assume h: "pool m \<and> (\<forall>s. \<not> faults ev s) \<and> primary_key (leaderboard m)"
  let ?m' = "m\<lparr>leaderboard := snd (sql_delete g u (leaderboard m))\<rparr>"
  have n: "fst (sql_delete g u (leaderboard m)) =
             (if select_row g u (leaderboard m) = None then 0 else 1)"
    using h by (simp add: sql_delete_def count_primary_key)
  have "remove_member ev m g u =
          Inr (PyNone,
               (if select_row g u (leaderboard m) = None then MemberNotFound
                else RemovedMember), ?m')"
    using h n by (simp add: remove_member_def exec_ok case_prod_beta)
  then show "\<exists>m'. remove_member ev m g u =
                 Inr (PyNone,
                      (if select_row g u (leaderboard m) = None then MemberNotFound
                       else RemovedMember), m')
             \<and> select_row g u (leaderboard m') = None
             \<and> (\<forall>g' u'. (g', u') \<noteq> (g, u) \<longrightarrow>
                   select_row g' u' (leaderboard m') = select_row g' u' (leaderboard m))"
    by (intro exI [of _ ?m']) (auto simp: select_row_sql_delete)
qed

text \<open>
  Claim C8 as stated fails: bob's entry exists, the call removes it, and the value returned is
  \<open>None\<close>, which is not truthy.
\<close>

theorem remove_member_counterexample:
  "select_row 1 20 (leaderboard example_manager) \<noteq> None
   \<and> remove_member healthy_env example_manager 1 20 =
       Inr (PyNone, RemovedMember,
            example_manager\<lparr>leaderboard := snd (sql_delete 1 20 example_ledger)\<rparr>)
   \<and> \<not> truthy PyNone"
  by (simp add: example_manager_def example_ledger_def healthy_env_def remove_member_def
        exec_def sql_delete_def select_row_def key_match_def)

text \<open>
  Claim C4, as amended.  For a guild with no ledger entry, \<open>_get_leaderboard_async\<close> returns
  the triple \<open>([], 0, 0)\<close>, whatever the page and the page size: the floor of 1 on the number
  of pages is not reached, because the method returns before computing it.
\<close>

theorem empty_guild_page:
  assumes "guild_entries g (leaderboard m) = []"
  shows "get_leaderboard_async ev m g page per_page = Inr ([], 0, 0)"
proof -
  have "filter (in_guild g) (leaderboard m) = []"
    using assms by (auto simp: guild_entries_def in_guild_def filter_empty_conv)
  then show ?thesis
    by (simp add: get_leaderboard_async_def exec_def)
qed

text \<open>Claim C4 as stated fails: for guild 3 the result is not \<open>([], 1, 1)\<close>.\<close>

theorem empty_guild_page_counterexample:
  "guild_entries 3 (leaderboard example_manager) = []
   \<and> get_leaderboard_async healthy_env example_manager 3 1 50 = Inr ([], 0, 0)
   \<and> get_leaderboard_async healthy_env example_manager 3 1 50 \<noteq> Inr ([], 1, 1)"
  by (simp add: example_manager_def example_ledger_def healthy_env_def guild_entries_def
        get_leaderboard_async_def exec_def in_guild_def)

lemma filter_in_guild:
  "points_check tbl \<Longrightarrow> filter (in_guild g) tbl = guild_entries g tbl"
  unfolding guild_entries_def points_check_def
  by (rule filter_cong) (auto simp: in_guild_def list_all_iff)

lemma length_order_by [simp]: "length (order_by rows) = length rows"
  by (simp add: order_by_def)

lemma mset_order_by [simp]: "mset (order_by rows) = mset rows"
  by (simp add: order_by_def)

lemma sorted_order_by:
  "sorted_wrt (\<lambda>a b. points a > points b \<or> (points a = points b \<and> last_updated a \<le> last_updated b))
     (order_by rows)"
proof -
  have "sorted (map order_key (order_by rows))"
    by (simp add: order_by_def)
  then have "sorted_wrt (\<lambda>a b. order_key a \<le> order_key b) (order_by rows)"
    by (simp add: sorted_map)
  then show ?thesis
    by (rule sorted_wrt_mono_rel [rotated]) (auto simp: order_key_def)
qed

lemma length_row_number_over [simp]: "length (row_number_over rows) = length rows"
  by (simp add: row_number_over_def del: upt_Suc)

lemma nth_row_number_over:
  "i < length rows \<Longrightarrow> row_number_over rows ! i = (int i + 1, order_by rows ! i)"
  by (simp add: row_number_over_def nth_append del: upt_Suc)

lemma ceil_div:
  fixes n pp :: int
  assumes "0 < pp" "0 < n"
  shows "((n + pp - 1) div pp - 1) * pp < n" "n \<le> ((n + pp - 1) div pp) * pp"
    "1 \<le> (n + pp - 1) div pp"
proof -
  let ?a = "n + pp - 1"
  have eq: "?a div pp * pp + ?a mod pp = ?a" by (rule div_mult_mod_eq)
  have r: "0 \<le> ?a mod pp" "?a mod pp < pp" using assms(1) by simp_all
  have "(?a div pp - 1) * pp = ?a div pp * pp - pp" by (simp add: algebra_simps)
  then show "(?a div pp - 1) * pp < n" using eq r by linarith
  show "n \<le> ?a div pp * pp" using eq r by linarith
  have "0 < ?a div pp" using assms by (simp add: pos_imp_zdiv_pos_iff)
  then show "1 \<le> ?a div pp" by simp
qed

lemma nth_page:
  assumes "i < length (take k (drop off xs))"
  shows "take k (drop off xs) ! i = xs ! (off + i)"
proof -
  have "off \<le> length xs" using assms by (simp, arith)
  then show ?thesis using assms by (simp add: nth_drop)
qed

lemma page_index:
  assumes "i < length (take k (drop off xs))"
  shows "off + i < length xs"
  using assms by (simp, arith)

lemma fetch_page:
  assumes "\<not> faults ev SelectPage" and "0 \<le> lim" and "0 \<le> off"
  shows "on_ok (on_ok (limit_offset lim off rows) (exec ev SelectPage)) f =
           f (take (nat lim) (drop (nat off) rows))"
  using assms by (simp add: limit_offset_def exec_ok)

lemma get_leaderboard_async_healthy:
  assumes "pool m" and "\<forall>s. \<not> faults ev s" and "0 < per_page"
    and "points_check (leaderboard m)" and "guild_entries g (leaderboard m) \<noteq> []"
  shows "get_leaderboard_async ev m g page per_page =
     Inr (map format_row
            (take (nat per_page)
               (drop (nat ((max 1 (min page (max 1 ((int (length (guild_entries g (leaderboard m)))
                        + per_page - 1) div per_page))) - 1) * per_page))
                  (row_number_over (guild_entries g (leaderboard m))))),
          max 1 (min page (max 1 ((int (length (guild_entries g (leaderboard m)))
                        + per_page - 1) div per_page))),
          max 1 ((int (length (guild_entries g (leaderboard m))) + per_page - 1) div per_page))"
proof -
  let ?ge = "guild_entries g (leaderboard m)"
  let ?tp = "max 1 ((int (length ?ge) + per_page - 1) div per_page)"
  let ?p = "max 1 (min page ?tp)"
  have f: "filter (in_guild g) (leaderboard m) = ?ge"
    using assms(4) by (rule filter_in_guild)
  have n: "(int (length ?ge) = 0) = False" using assms(5) by simp
  have "1 \<le> ?p" by (rule max.cobounded1)
  then have off: "0 \<le> (?p - 1) * per_page" using assms(3) by (intro mult_nonneg_nonneg) simp_all
  have fd: "floordiv a per_page = Inr (a div per_page)" for a
    using assms(3) by (simp add: floordiv_def)
  have ex: "exec ev s v = Inr v" for s and v :: 'a
    using assms(2) by (simp add: exec_ok)
  have lim: "0 \<le> per_page" using assms(3) by simp
  have sp: "\<not> faults ev SelectPage" using assms(2) by simp
  show ?thesis
    unfolding get_leaderboard_async_def f Let_def
    by (simp only: assms(1) not_True_eq_False if_False ex on_ok_simps n fd
          fetch_page [OF sp lim off] try_except_simps)
qed

text \<open>
  Claim C2.  On a healthy store, with a positive page size and a table that satisfies its
  CHECK constraint, for every guild with at least one entry and every requested page:
  the number of pages is the ceiling of count / page size, the page returned is the requested
  one clamped into \<open>[1, total_pages]\<close>, the page is not empty, and its \<open>i\<close>-th row is the
  row at offset \<open>(page - 1) * per_page + i\<close> of the full ordering of the guild, with rank
  1 + that offset.  The full ordering is a permutation of the guild's entries, sorted by
  points descending and then \<open>last_updated\<close> ascending.
\<close>

theorem get_leaderboard_page:
  fixes ev m g page per_page
  defines "full \<equiv> order_by (guild_entries g (leaderboard m))"
  assumes "pool m" and "\<forall>s. \<not> faults ev s" and "0 < per_page"
    and "points_check (leaderboard m)" and "guild_entries g (leaderboard m) \<noteq> []"
  shows "\<exists>rows p tp.
      get_leaderboard_async ev m g page per_page = Inr (rows, p, tp)
    \<and> (tp - 1) * per_page < int (length full) \<and> int (length full) \<le> tp * per_page
    \<and> p = max 1 (min page tp) \<and> 1 \<le> p \<and> p \<le> tp
    \<and> rows \<noteq> []
    \<and> length rows = min (nat per_page) (length full - nat ((p - 1) * per_page))
    \<and> (\<forall>i < length rows.
          rows ! i = format_row ((p - 1) * per_page + int i + 1,
                                 full ! (nat ((p - 1) * per_page) + i)))
    \<and> sorted_wrt (\<lambda>a b. points a > points b
                       \<or> (points a = points b \<and> last_updated a \<le> last_updated b)) full
    \<and> mset full = mset (guild_entries g (leaderboard m))"
proof -
  define ge where "ge = guild_entries g (leaderboard m)"
  define tp where "tp = max 1 ((int (length ge) + per_page - 1) div per_page)"
  define p where "p = max 1 (min page tp)"
  define off where "off = nat ((p - 1) * per_page)"
  define ranked where "ranked = take (nat per_page) (drop off (row_number_over ge))"
  define rows where "rows = map format_row ranked"
  have full: "full = order_by ge" by (simp add: full_def ge_def)
  have npos: "0 < int (length ge)" using assms(6) by (simp add: ge_def)
  note cd = ceil_div [OF assms(4) npos]
  have tp: "tp = (int (length ge) + per_page - 1) div per_page"
    using cd(3) by (simp add: tp_def)
  have res: "get_leaderboard_async ev m g page per_page = Inr (rows, p, tp)"
    unfolding rows_def ranked_def off_def p_def tp_def ge_def
    using assms(2-6) by (rule get_leaderboard_async_healthy)
  have c1: "(tp - 1) * per_page < int (length full)" using cd(1) by (simp add: tp full)
  have c2: "int (length full) \<le> tp * per_page" using cd(2) by (simp add: tp full)
  have c3: "p = max 1 (min page tp)" by (rule p_def)
  have c4: "1 \<le> p" by (simp add: p_def)
  have tp1: "1 \<le> tp" by (simp add: tp_def)
  have c5: "p \<le> tp" using tp1 by (simp add: p_def)
  have "(p - 1) * per_page \<le> (tp - 1) * per_page"
    using c5 assms(4) by (intro mult_right_mono) simp_all
  also have "\<dots> < int (length ge)" using cd(1) by (simp add: tp)
  finally have off_lt: "(p - 1) * per_page < int (length ge)" .
  have off_int: "int off = (p - 1) * per_page"
    using assms(4) c4 by (simp add: off_def)
  have off_nat: "off < length ge" using off_lt off_int by linarith
  have pp: "0 < nat per_page" using assms(4) by simp
  have len_ranked: "length ranked = min (nat per_page) (length ge - off)"
    by (simp add: ranked_def min.commute)
  have c7: "length rows = min (nat per_page) (length full - nat ((p - 1) * per_page))"
    using len_ranked by (simp add: rows_def full off_def)
  have "0 < length ranked" using off_nat pp unfolding len_ranked by simp
  then have c6: "rows \<noteq> []" by (simp add: rows_def)
  have c8: "\<forall>i < length rows.
          rows ! i = format_row ((p - 1) * per_page + int i + 1,
                                 full ! (nat ((p - 1) * per_page) + i))"
  proof (intro allI impI)
    fix i assume "i < length rows"
    then have i: "i < length (take (nat per_page) (drop off (row_number_over ge)))"
      by (simp add: rows_def ranked_def)
    from page_index [OF i] have "off + i < length ge" by simp
    then have "row_number_over ge ! (off + i) = (int (off + i) + 1, order_by ge ! (off + i))"
      by (rule nth_row_number_over)
    then have "ranked ! i = ((p - 1) * per_page + int i + 1, order_by ge ! (off + i))"
      using nth_page [OF i] off_int by (simp add: ranked_def)
    moreover have "rows ! i = format_row (ranked ! i)"
      using i by (simp add: rows_def ranked_def)
    ultimately show "rows ! i = format_row ((p - 1) * per_page + int i + 1,
                                 full ! (nat ((p - 1) * per_page) + i))"
      by (simp add: full off_def)
  qed
  have c9: "sorted_wrt (\<lambda>a b. points a > points b
                       \<or> (points a = points b \<and> last_updated a \<le> last_updated b)) full"
    unfolding full by (rule sorted_order_by)
  have c10: "mset full = mset (guild_entries g (leaderboard m))"
    by (simp add: full ge_def)
  from res c1 c2 c3 c4 c5 c6 c7 c8 c9 c10 show ?thesis by blast
qed

lemma healthy_env_faults: "\<forall>s. \<not> faults healthy_env s"
  by (simp add: healthy_env_def)

lemma example_pool: "pool example_manager"
  by (simp add: example_manager_def)

lemma example_leaderboard: "leaderboard example_manager = example_ledger"
  by (simp add: example_manager_def)



text \<open>Touching bob twice keeps his 5 points.\<close>

theorem add_member_idempotent_witness:
  "\<exists>m1 m2. add_member healthy_env example_manager 1 20 (ustr ''bobby'') = Inr (PyNone, m1)
     \<and> add_member healthy_env m1 1 20 (ustr ''bobby'') = Inr (PyNone, m2)
     \<and> map_option points (select_row 1 20 (leaderboard m1)) = Some 5
     \<and> map_option points (select_row 1 20 (leaderboard m2)) = Some 5"
proof -
  have row: "select_row 1 20 (leaderboard example_manager) =
      Some \<lparr>guild_id = 1, user_id = 20, username = ustr ''bob'', points = 5,
            last_updated = 60, created_at = 2\<rparr>"
    by (simp add: example_leaderboard example_ledger_def select_row_def key_match_def)
  show ?thesis
    using add_member_idempotent [OF example_pool healthy_env_faults healthy_env_faults,
        of 1 20 "ustr ''bobby''"] row
    by auto
qed

text \<open>Removing bob: the entry is gone, the log says so, the result is \<open>None\<close>.\<close>

theorem remove_member_deletes_witness:
  "\<exists>m'. remove_member healthy_env example_manager 1 20 = Inr (PyNone, RemovedMember, m')
       \<and> select_row 1 20 (leaderboard m') = None"
proof -
  have row: "select_row 1 20 (leaderboard example_manager) \<noteq> None"
    by (simp add: example_leaderboard example_ledger_def select_row_def key_match_def)
  have pk: "primary_key (leaderboard example_manager)"
    by (simp add: example_leaderboard example_ledger_def primary_key_def)
  show ?thesis
    using remove_member_deletes [of healthy_env example_manager 1 20]
      example_pool healthy_env_faults row pk
    by auto
qed

text \<open>Guild 3 has no entry.\<close>

theorem empty_guild_page_witness:
  "guild_entries 3 (leaderboard example_manager) = []
   \<and> get_leaderboard_async healthy_env example_manager 3 1 50 = Inr ([], 0, 0)"
proof -
  have e: "guild_entries 3 (leaderboard example_manager) = []"
    by (simp add: example_leaderboard example_ledger_def guild_entries_def)
  show ?thesis
    using empty_guild_page [OF e, of healthy_env 1 50] e by simp
qed

text \<open>Page 2 of guild 1 at 3 rows a page: bob alone, with rank 4.\<close>

theorem get_leaderboard_page_witness:
  "\<exists>rows. get_leaderboard_async healthy_env example_manager 1 2 3 = Inr (rows, 2, 2)
     \<and> map rank rows = [4] \<and> map row_user_id rows = [20]"
proof -
  have ge: "guild_entries 1 (leaderboard example_manager) =
     [\<lparr>guild_id = 1, user_id = 20, username = ustr ''bob'', points = 5,
       last_updated = 60, created_at = 2\<rparr>,
      \<lparr>guild_id = 1, user_id = 10, username = ustr ''alice'', points = 100,
       last_updated = 50, created_at = 1\<rparr>,
      \<lparr>guild_id = 1, user_id = 30, username = ustr ''carol'', points = 50,
       last_updated = 40, created_at = 4\<rparr>,
      \<lparr>guild_id = 1, user_id = 40, username = ustr ''dave'', points = 5,
       last_updated = 30, created_at = 5\<rparr>]"
    by (simp add: example_leaderboard example_ledger_def guild_entries_def)
  have ne: "guild_entries 1 (leaderboard example_manager) \<noteq> []"
    by (simp add: ge)
  have chk: "points_check (leaderboard example_manager)"
    by (simp add: example_leaderboard example_ledger_def points_check_def)
  have full: "order_by (guild_entries 1 (leaderboard example_manager)) ! 3 =
      \<lparr>guild_id = 1, user_id = 20, username = ustr ''bob'', points = 5,
       last_updated = 60, created_at = 2\<rparr>"
    unfolding ge by (simp add: order_by_def order_key_def)
  have pp: "(0::int) < 3" by simp
  obtain rows p tp where
    r: "get_leaderboard_async healthy_env example_manager 1 2 3 = Inr (rows, p, tp)"
    and t1: "(tp - 1) * 3 < int (length (order_by (guild_entries 1 (leaderboard example_manager))))"
    and t2: "int (length (order_by (guild_entries 1 (leaderboard example_manager)))) \<le> tp * 3"
    and p: "p = max 1 (min 2 tp)"
    and len: "length rows = min (nat 3)
        (length (order_by (guild_entries 1 (leaderboard example_manager))) - nat ((p - 1) * 3))"
    and nth: "\<forall>i < length rows. rows ! i = format_row ((p - 1) * 3 + int i + 1,
         order_by (guild_entries 1 (leaderboard example_manager)) ! (nat ((p - 1) * 3) + i))"
    using get_leaderboard_page [OF example_pool healthy_env_faults pp chk ne, of 2] by blast
  have l4: "length (order_by (guild_entries 1 (leaderboard example_manager))) = 4"
    by (simp add: ge)
  have tp: "tp = 2" using t1 t2 unfolding l4 by simp
  have p2: "p = 2" using p tp by simp
  have l1: "length rows = 1" using len unfolding l4 p2 by simp
  have "rows ! 0 = format_row (4,
      \<lparr>guild_id = 1, user_id = 20, username = ustr ''bob'', points = 5,
       last_updated = 60, created_at = 2\<rparr>)"
    using nth l1 full unfolding p2 by simp
  then have "rows = [format_row (4,
      \<lparr>guild_id = 1, user_id = 20, username = ustr ''bob'', points = 5,
       last_updated = 60, created_at = 2\<rparr>)]"
    using l1 by (cases rows) auto
  then show ?thesis using r tp p2 by (simp add: format_row_def)
qed

lemma get_user_stats_rank_one:
  assumes "get_user_stats ev m g u = Inr (Some s)"
  shows "stats_rank s = 1"
proof -
  have "fst r = 1" if "fetchrow (row_number_over rows) = Some r" for rows r
  proof -
    have "row_number_over rows \<noteq> []" and r: "r = row_number_over rows ! 0"
      using that by (auto simp: fetchrow_def split: list.splits)
    then have "0 < length rows" by (cases rows) (simp_all add: row_number_over_def)
    then show ?thesis using r by (simp add: nth_row_number_over)
  qed
  then show ?thesis
    using assms
    by (auto simp: get_user_stats_def exec_def on_ok_def try_except_def
             split: if_splits option.splits sum.splits)
qed

text \<open>
  Claim C5 fails on the code.  Carol has the second-highest points of guild 1, and the page
  query ranks her second; \<open>get_user_stats\<close> gives her rank 1, because its window function
  numbers only the rows its WHERE clause has kept, that is her own row.
\<close>

theorem get_user_stats_rank_ignores_guild:
  "get_user_stats healthy_env example_manager 1 30 =
     Inr (Some \<lparr>stats_username = ustr ''carol'', stats_points = 50, stats_rank = 1,
                stats_last_updated = 40, stats_created_at = 4\<rparr>)
   \<and> map (\<lambda>r. (rank r, row_user_id r))
         (fst (projr (get_leaderboard_async healthy_env example_manager 1 1 50))) =
       [(1, 10), (2, 30), (3, 40), (4, 20)]"
  by (simp add: get_user_stats_def get_leaderboard_async_def healthy_env_def
        example_manager_def example_ledger_def exec_def fetchrow_def row_number_over_def
        order_by_def order_key_def key_match_def in_guild_def floordiv_def limit_offset_def
        format_row_def)

section \<open>Properties of the validation and of the addpoints command\<close>



section \<open>Properties of the renderer\<close>


lemma length_ustr [simp]: "length (ustr s) = length s"
  by (simp add: ustr_def)











lemma not_blank_append [simp]: "not_blank (a @ b) \<longleftrightarrow> not_blank a \<or> not_blank b"
  by (simp add: not_blank_def)







lemma initial_state: "[[]] \<noteq> []" "(0::nat) = length [[]::ustring] - 1" "(0::nat) < 20"
  by simp_all







end
